theory Spec2Isabelle
  imports Main "HOL-Library.Log_Nat" "HOL-Library.Multiset"
begin

section \<open>JavaScript numbers\<close>

text \<open>
  A JavaScript number is an IEEE 754 double: NaN, one of the two infinities, or a finite
  value, which is kept as the rational it denotes. The two zeros are one value, since no
  operation of the modelled code tells them apart. Adding or multiplying two finite values
  rounds the exact result to the nearest double, ties to even: \<open>rnd\<close> rounds to a multiple
  of the unit in the last place, which is \<open>2 ^ (e - 52)\<close> for a magnitude in
  \<open>[2 ^ e, 2 ^ (e + 1))\<close> and \<open>2 ^ - 1074\<close> below \<open>2 ^ - 1022\<close>, and gives an infinity
  when the rounded magnitude reaches \<open>2 ^ 1024\<close>. \<open>ilog2\<close> is the binary exponent
  \<open>e\<close> of a positive rational.
\<close>

datatype jsnum = NaN | PInf | NInf | Fin rat

definition pow2 :: "int \<Rightarrow> rat" where
  "pow2 e = (if 0 \<le> e then 2 ^ nat e else 1 / 2 ^ nat (- e))"

definition ilog2 :: "rat \<Rightarrow> int" where
  "ilog2 x = (if 1 \<le> x then bitlen \<lfloor>x\<rfloor> - 1 else - bitlen (\<lceil>1 / x\<rceil> - 1))"

definition round_even :: "rat \<Rightarrow> int" where
  "round_even x =
     (let n = \<lfloor>x\<rfloor>; d = x - of_int n
      in if d < 1 / 2 then n else if 1 / 2 < d then n + 1 else if even n then n else n + 1)"

definition rnd :: "rat \<Rightarrow> jsnum" where
  "rnd x =
     (if x = 0 then Fin 0
      else let u = pow2 (max (ilog2 \<bar>x\<bar>) (- 1022) - 52);
               r = of_int (round_even (\<bar>x\<bar> / u)) * u
           in if 0 < r \<and> 1024 \<le> ilog2 r then (if 0 < x then PInf else NInf) else Fin (sgn x * r))"

fun js_add :: "jsnum \<Rightarrow> jsnum \<Rightarrow> jsnum" where
  "js_add NaN y = NaN"
| "js_add x NaN = NaN"
| "js_add PInf NInf = NaN"
| "js_add NInf PInf = NaN"
| "js_add PInf y = PInf"
| "js_add x PInf = PInf"
| "js_add NInf y = NInf"
| "js_add x NInf = NInf"
| "js_add (Fin a) (Fin b) = rnd (a + b)"

fun js_mul :: "jsnum \<Rightarrow> jsnum \<Rightarrow> jsnum" where
  "js_mul NaN y = NaN"
| "js_mul x NaN = NaN"
| "js_mul PInf PInf = PInf"
| "js_mul PInf NInf = NInf"
| "js_mul NInf PInf = NInf"
| "js_mul NInf NInf = PInf"
| "js_mul PInf (Fin b) = (if b = 0 then NaN else if 0 < b then PInf else NInf)"
| "js_mul NInf (Fin b) = (if b = 0 then NaN else if 0 < b then NInf else PInf)"
| "js_mul (Fin a) PInf = (if a = 0 then NaN else if 0 < a then PInf else NInf)"
| "js_mul (Fin a) NInf = (if a = 0 then NaN else if 0 < a then NInf else PInf)"
| "js_mul (Fin a) (Fin b) = rnd (a * b)"

text \<open>
  \<open>js_or x d\<close> is \<open>x || d\<close> on numbers (0 and NaN are falsy), \<open>nullable\<close> is what an
  arithmetic operator makes of an operand that is a number or null, and \<open>js_sum\<close> is the
  sum of a list of numbers, taken from 0 in list order.
\<close>

fun truthy :: "jsnum \<Rightarrow> bool" where
  "truthy NaN = False"
| "truthy (Fin a) = (a \<noteq> 0)"
| "truthy x = True"

definition js_or :: "jsnum \<Rightarrow> jsnum \<Rightarrow> jsnum" where
  "js_or x d = (if truthy x then x else d)"

fun nullable :: "jsnum option \<Rightarrow> jsnum" where
  "nullable None = Fin 0"
| "nullable (Some n) = n"

definition js_sum :: "jsnum list \<Rightarrow> jsnum" where
  "js_sum xs = foldl js_add (Fin 0) xs"

section \<open>The order form and its derived totals\<close>

text \<open>
  The values of the order form. Of a line item, \<open>id\<close>, \<open>model\<close>, \<open>size\<close> and
  \<open>meters\<close> may be absent; \<open>quantity\<close> is a number or null, as the form is seeded with
  the column uncoerced; the status is a string or null for the same reason. The totals are
  computed at every render from the watched items and the four watched surcharge fields.
\<close>

record form_item =
  item_id :: "nat option"
  product_name :: string
  model :: "string option"
  item_size :: "string option"
  quantity :: "jsnum option"
  meters :: "jsnum option"
  unit_price :: jsnum

record order_form =
  customer_name :: string
  customer_phone :: string
  status :: "string option"
  fabric_price :: jsnum
  tailoring_price :: jsnum
  extra_costs :: jsnum
  tax_amount :: jsnum
  notes_text :: "string option"
  order_items :: "form_item list"

definition watchedPrices :: "order_form \<Rightarrow> jsnum list" where
  "watchedPrices f = [fabric_price f, tailoring_price f, extra_costs f, tax_amount f]"

definition itemsTotal :: "form_item list \<Rightarrow> jsnum" where
  "itemsTotal watchedItems =
     foldl (\<lambda>sum item. js_add sum (js_mul (nullable (quantity item)) (unit_price item)))
       (Fin 0) watchedItems"

definition totalPieces :: "form_item list \<Rightarrow> jsnum" where
  "totalPieces watchedItems =
     foldl (\<lambda>sum item. js_add sum (nullable (quantity item))) (Fin 0) watchedItems"

definition totalPrice :: "order_form \<Rightarrow> jsnum" where
  "totalPrice f =
     js_add (js_add (js_add (js_add (itemsTotal (order_items f))
       (js_or (watchedPrices f ! 0) (Fin 0)))
       (js_or (watchedPrices f ! 1) (Fin 0)))
       (js_or (watchedPrices f ! 2) (Fin 0)))
       (js_or (watchedPrices f ! 3) (Fin 0))"

section \<open>Status badge of the order list\<close>

text \<open>
  \<open>variants\<close> and \<open>labels\<close> are object literals, and \<open>obj[key]\<close> on an object literal
  also finds the members every object inherits from \<open>Object.prototype\<close>: eleven functions
  and the accessor \<open>__proto__\<close>. A property read is therefore an own string, an inherited
  member, or \<open>undefined\<close>. The Arabic label texts are kept as their UTF-8 bytes.
\<close>

datatype js_prop = Undefined | Str string | Inherited string

definition object_prototype :: "string list" where
  "object_prototype =
     [''constructor'', ''__defineGetter__'', ''__defineSetter__'', ''hasOwnProperty'',
      ''__lookupGetter__'', ''__lookupSetter__'', ''isPrototypeOf'', ''propertyIsEnumerable'',
      ''toString'', ''valueOf'', ''__proto__'', ''toLocaleString'']"

definition get_prop :: "(string \<times> string) list \<Rightarrow> string \<Rightarrow> js_prop" where
  "get_prop obj key =
     (case map_of obj key of
        Some v \<Rightarrow> Str v
      | None \<Rightarrow> if key \<in> set object_prototype then Inherited key else Undefined)"

fun truthy_prop :: "js_prop \<Rightarrow> bool" where
  "truthy_prop Undefined = False"
| "truthy_prop (Str s) = (s \<noteq> [])"
| "truthy_prop (Inherited k) = True"

definition prop_or :: "js_prop \<Rightarrow> js_prop \<Rightarrow> js_prop" where
  "prop_or p d = (if truthy_prop p then p else d)"

definition label_in_progress :: string where
  "label_in_progress =
     [CHR 0xD9, CHR 0x82, CHR 0xD9, CHR 0x8A, CHR 0xD8, CHR 0xAF, CHR 0x20, CHR 0xD8, CHR 0xA7,
      CHR 0xD9, CHR 0x84, CHR 0xD8, CHR 0xAA, CHR 0xD9, CHR 0x86, CHR 0xD9, CHR 0x81, CHR 0xD9,
      CHR 0x8A, CHR 0xD8, CHR 0xB0]"

definition label_complete :: string where
  "label_complete =
     [CHR 0xD9, CHR 0x85, CHR 0xD9, CHR 0x83, CHR 0xD8, CHR 0xAA, CHR 0xD9, CHR 0x85, CHR 0xD9,
      CHR 0x84]"

definition label_cancelled :: string where
  "label_cancelled =
     [CHR 0xD9, CHR 0x85, CHR 0xD9, CHR 0x84, CHR 0xD8, CHR 0xBA, CHR 0xD9, CHR 0x8A]"

definition variants :: "(string \<times> string) list" where
  "variants =
     [(''pending'', ''outline''), (''completed'', ''default''), (''cancelled'', ''destructive'')]"

definition labels :: "(string \<times> string) list" where
  "labels =
     [(''pending'', label_in_progress), (''completed'', label_complete),
      (''cancelled'', label_cancelled)]"

record badge =
  variant :: js_prop
  children :: js_prop

definition getStatusBadge :: "string \<Rightarrow> badge" where
  "getStatusBadge status_text =
     \<lparr>variant = prop_or (get_prop variants status_text) (Str ''secondary''),
      children = prop_or (get_prop labels status_text) (Str status_text)\<rparr>"

section \<open>Dashboard statistics\<close>

text \<open>
  A column that the code reads through \<open>Number(...)\<close> is modelled by what that coercion
  sees in the parsed row: the key is missing (\<open>undefined\<close>), the value is \<open>null\<close>, it is a
  number (or anything else that \<open>Number\<close> converts to that number: a JSON number beyond the
  range of the doubles and the string \<open>Infinity\<close> give an infinity), or it is a value that
  \<open>Number\<close> converts to NaN, such as a non-numeric string.
\<close>

datatype fetched = Missing | Null | Numeric jsnum | NonNumeric

fun js_Number :: "fetched \<Rightarrow> jsnum" where
  "js_Number Missing = NaN"
| "js_Number Null = Fin 0"
| "js_Number (Numeric n) = n"
| "js_Number NonNumeric = NaN"

record order_summary =
  row_total_price :: fetched
  row_status :: "string option"

record stats =
  totalOrders :: nat
  totalRevenue :: jsnum
  totalCustomers :: nat
  pendingOrders :: nat
  completedOrders :: nat

definition initial_stats :: stats where
  "initial_stats = \<lparr>totalOrders = 0, totalRevenue = Fin 0, totalCustomers = 0,
     pendingOrders = 0, completedOrders = 0\<rparr>"

definition fetchStats :: "order_summary list option \<Rightarrow> 'c list option \<Rightarrow> stats \<Rightarrow> stats" where
  "fetchStats orders_data customers st =
     (case orders_data of
        None \<Rightarrow> st
      | Some os \<Rightarrow>
          \<lparr>totalOrders = length os,
           totalRevenue =
             foldl (\<lambda>sum order. js_add sum (js_Number (row_total_price order))) (Fin 0) os,
           totalCustomers = (case customers of None \<Rightarrow> 0 | Some cs \<Rightarrow> length cs),
           pendingOrders = length (filter (\<lambda>order. row_status order = Some ''pending'') os),
           completedOrders =
             length (filter (\<lambda>order. row_status order = Some ''completed'') os)\<rparr>)"

section \<open>The validation schema of the order form\<close>

text \<open>
  \<open>orderSchema\<close> returns the issues of the schema, in the order of its keys; the form is
  valid when there are none. The five messages given in the source are constructors of
  \<open>message\<close>; \<open>Schema_default\<close> stands for a message the schema library supplies.
  \<open>z.number()\<close> rejects NaN (and null), \<open>z.string().optional()\<close> accepts every string and
  the absent value.
\<close>

datatype item_field = Product_name | Quantity | Meters | Unit_price

datatype form_field =
  Customer_name | Customer_phone | Status | Fabric_price | Tailoring_price | Extra_costs
  | Tax_amount | Item nat item_field

datatype message =
  Customer_name_required | Phone_required | Product_name_required | Quantity_required
  | Price_required | Schema_default

type_synonym issue = "form_field \<times> message"

fun is_number :: "jsnum \<Rightarrow> bool" where
  "is_number NaN = False"
| "is_number x = True"

fun js_ge :: "jsnum \<Rightarrow> rat \<Rightarrow> bool" where
  "js_ge NaN c = False"
| "js_ge PInf c = True"
| "js_ge NInf c = False"
| "js_ge (Fin a) c = (c \<le> a)"

definition string_min1 :: "form_field \<Rightarrow> message \<Rightarrow> string \<Rightarrow> issue list" where
  "string_min1 p m s = (if s = [] then [(p, m)] else [])"

definition number_min :: "form_field \<Rightarrow> message \<Rightarrow> rat \<Rightarrow> jsnum \<Rightarrow> issue list" where
  "number_min p m lo x =
     (if \<not> is_number x then [(p, Schema_default)]
      else if \<not> js_ge x lo then [(p, m)] else [])"

definition status_enum :: "string option \<Rightarrow> issue list" where
  "status_enum s =
     (if s = Some ''pending'' \<or> s = Some ''completed'' \<or> s = Some ''cancelled'' then []
      else [(Status, Schema_default)])"

definition validate_item :: "nat \<Rightarrow> form_item \<Rightarrow> issue list" where
  "validate_item k item =
     string_min1 (Item k Product_name) Product_name_required (product_name item)
     @ (case quantity item of
          None \<Rightarrow> [(Item k Quantity, Schema_default)]
        | Some q \<Rightarrow> number_min (Item k Quantity) Quantity_required 1 q)
     @ (case meters item of
          None \<Rightarrow> []
        | Some m \<Rightarrow> if is_number m then [] else [(Item k Meters, Schema_default)])
     @ number_min (Item k Unit_price) Price_required 0 (unit_price item)"

fun validate_items :: "nat \<Rightarrow> form_item list \<Rightarrow> issue list" where
  "validate_items k [] = []"
| "validate_items k (item # rest) = validate_item k item @ validate_items (Suc k) rest"

definition orderSchema :: "order_form \<Rightarrow> issue list" where
  "orderSchema f =
     string_min1 Customer_name Customer_name_required (customer_name f)
     @ string_min1 Customer_phone Phone_required (customer_phone f)
     @ status_enum (status f)
     @ number_min Fabric_price Schema_default 0 (fabric_price f)
     @ number_min Tailoring_price Schema_default 0 (tailoring_price f)
     @ number_min Extra_costs Schema_default 0 (extra_costs f)
     @ number_min Tax_amount Schema_default 0 (tax_amount f)
     @ validate_items 0 (order_items f)"

text \<open>
  The item list of the form: the add button appends a blank item, and the remove button of a
  row is rendered only while the list has more than one row.
\<close>

definition blank_item :: form_item where
  "blank_item = \<lparr>item_id = None, product_name = [], model = Some [], item_size = Some [],
     quantity = Some (Fin 1), meters = Some (Fin 0), unit_price = Fin 0\<rparr>"

definition append_item :: "form_item list \<Rightarrow> form_item list" where
  "append_item item_fields = item_fields @ [blank_item]"

definition remove_at :: "nat \<Rightarrow> form_item list \<Rightarrow> form_item list" where
  "remove_at index item_fields = take index item_fields @ drop (Suc index) item_fields"

definition click_remove :: "nat \<Rightarrow> form_item list \<Rightarrow> form_item list option" where
  "click_remove index item_fields =
     (if 1 < length item_fields then Some (remove_at index item_fields) else None)"

section \<open>The backend gateway\<close>

text \<open>
  Modelled from the spec: the gateway client (\<open>@/integrations/supabase/client\<close>) and the
  hosted service behind it, of which the editor uses a single-row select of an order, a
  select of the item rows of an order, an update filtered by the order identifier, a delete
  filtered by the owning order and a batch insert. The model keeps the two tables the order
  editor uses and a log of the requests received. A stored row is the JSON object a select
  returns for it: the columns that \<open>fetchOrder\<close> reads through \<open>Number(...)\<close> have type
  \<open>fetched\<close>, the other numeric columns are a number or null. The field names are the
  column names behind a prefix (\<open>o_\<close> orders, \<open>i_\<close> order items, \<open>u_\<close> update payload,
  \<open>n_\<close> insert payload); the columns that the editor neither reads nor writes (order number,
  customer reference, images, product reference, timestamps) are left out. Item row
  identifiers are drawn from a counter.

  A request either fails, and then changes nothing, or succeeds with the effect of the one
  statement it stands for; \<open>faulty\<close> says which operations fail. A request body is written
  by \<open>JSON.stringify\<close>: NaN and the infinities become null, and a key whose value is
  \<open>undefined\<close> is dropped, so that an update leaves that column as it is and an insert
  leaves it null.
\<close>

record order_row =
  o_id :: string
  o_customer_name :: string
  o_customer_phone :: string
  o_status :: "string option"
  o_total_pieces :: "jsnum option"
  o_total_price :: "jsnum option"
  o_fabric_price :: fetched
  o_tailoring_price :: fetched
  o_extra_costs :: fetched
  o_tax_amount :: fetched
  o_notes :: "string option"

record item_row =
  i_id :: nat
  i_order_id :: "string option"
  i_product_name :: string
  i_model :: "string option"
  i_size :: "string option"
  i_quantity :: "jsnum option"
  i_meters :: fetched
  i_unit_price :: fetched
  i_total_price :: "jsnum option"

record order_update =
  u_customer_name :: string
  u_customer_phone :: string
  u_status :: "string option"
  u_total_pieces :: jsnum
  u_total_price :: jsnum
  u_fabric_price :: jsnum
  u_tailoring_price :: jsnum
  u_extra_costs :: jsnum
  u_tax_amount :: jsnum
  u_notes :: "string option"

record item_insert =
  n_order_id :: string
  n_product_name :: string
  n_model :: "string option"
  n_size :: "string option"
  n_quantity :: "jsnum option"
  n_meters :: "jsnum option"
  n_unit_price :: jsnum
  n_total_price :: jsnum

datatype operation = Select_order | Select_items | Update_order | Delete_items | Insert_items

datatype request =
  Req_select_order string
  | Req_select_items string
  | Req_update string order_update
  | Req_delete string
  | Req_insert "item_insert list"

record backend =
  orders_table :: "order_row list"
  items_table :: "item_row list"
  next_item_id :: nat
  requests :: "request list"
  faulty :: "operation \<Rightarrow> bool"

fun json_number :: "jsnum \<Rightarrow> fetched" where
  "json_number (Fin r) = Numeric (Fin r)"
| "json_number x = Null"

fun json_nullable :: "jsnum \<Rightarrow> jsnum option" where
  "json_nullable (Fin r) = Some (Fin r)"
| "json_nullable x = None"

definition apply_update :: "order_update \<Rightarrow> order_row \<Rightarrow> order_row" where
  "apply_update u r =
     r\<lparr>o_customer_name := u_customer_name u,
       o_customer_phone := u_customer_phone u,
       o_status := u_status u,
       o_total_pieces := json_nullable (u_total_pieces u),
       o_total_price := json_nullable (u_total_price u),
       o_fabric_price := json_number (u_fabric_price u),
       o_tailoring_price := json_number (u_tailoring_price u),
       o_extra_costs := json_number (u_extra_costs u),
       o_tax_amount := json_number (u_tax_amount u),
       o_notes := (case u_notes u of None \<Rightarrow> o_notes r | Some t \<Rightarrow> Some t)\<rparr>"

definition stored_item :: "nat \<Rightarrow> item_insert \<Rightarrow> item_row" where
  "stored_item k p =
     \<lparr>i_id = k,
      i_order_id = Some (n_order_id p),
      i_product_name = n_product_name p,
      i_model = n_model p,
      i_size = n_size p,
      i_quantity = (case n_quantity p of None \<Rightarrow> None | Some q \<Rightarrow> json_nullable q),
      i_meters = (case n_meters p of None \<Rightarrow> Null | Some m \<Rightarrow> json_number m),
      i_unit_price = json_number (n_unit_price p),
      i_total_price = json_nullable (n_total_price p)\<rparr>"

fun store_items :: "nat \<Rightarrow> item_insert list \<Rightarrow> item_row list" where
  "store_items k [] = []"
| "store_items k (p # ps) = stored_item k p # store_items (Suc k) ps"



definition gw_update :: "string \<Rightarrow> order_update \<Rightarrow> backend \<Rightarrow> bool \<times> backend" where
  "gw_update oid u b =
     (let b1 = b\<lparr>requests := requests b @ [Req_update oid u]\<rparr>
      in if faulty b Update_order then (True, b1)
         else (False,
               b1\<lparr>orders_table := map (\<lambda>r. if o_id r = oid then apply_update u r else r) (orders_table b)\<rparr>))"

definition gw_delete :: "string \<Rightarrow> backend \<Rightarrow> bool \<times> backend" where
  "gw_delete oid b =
     (let b1 = b\<lparr>requests := requests b @ [Req_delete oid]\<rparr>
      in if faulty b Delete_items then (True, b1)
         else (False, b1\<lparr>items_table := filter (\<lambda>r. i_order_id r \<noteq> Some oid) (items_table b)\<rparr>))"

definition gw_insert :: "item_insert list \<Rightarrow> backend \<Rightarrow> bool \<times> backend" where
  "gw_insert ps b =
     (let b1 = b\<lparr>requests := requests b @ [Req_insert ps]\<rparr>
      in if faulty b Insert_items then (True, b1)
         else (False,
               b1\<lparr>items_table := items_table b @ store_items (next_item_id b) ps,
                  next_item_id := next_item_id b + length ps\<rparr>))"

section \<open>Loading and submitting the order form\<close>

text \<open>
  \<open>fetchOrder\<close> and \<open>onSubmit\<close> pass the backend along; a request that reports an error
  takes the \<open>catch\<close> branch, which shows the toast of the function. \<open>reset_values\<close> is
  the object given to \<open>form.reset\<close>, \<open>header_payload\<close> and \<open>item_payload\<close> are the
  objects given to \<open>update\<close> and \<open>insert\<close>. \<open>handleSubmit\<close> is
  \<open>form.handleSubmit(onSubmit)\<close> with the schema resolver: the form library calls
  \<open>onSubmit\<close> with the values only when the schema raises no issue, and reports the issues
  as field errors otherwise.
\<close>

datatype toast = Load_failed | Update_failed | Update_succeeded

definition defaultValues :: order_form where
  "defaultValues = \<lparr>customer_name = [], customer_phone = [], status = Some ''pending'',
     fabric_price = Fin 0, tailoring_price = Fin 0, extra_costs = Fin 0, tax_amount = Fin 0,
     notes_text = Some [], order_items = []\<rparr>"

fun str_or :: "string option \<Rightarrow> string \<Rightarrow> string" where
  "str_or None d = d"
| "str_or (Some t) d = (if t = [] then d else t)"

definition reset_item :: "item_row \<Rightarrow> form_item" where
  "reset_item item =
     \<lparr>item_id = Some (i_id item),
      product_name = i_product_name item,
      model = Some (str_or (i_model item) []),
      item_size = Some (str_or (i_size item) []),
      quantity = i_quantity item,
      meters = Some (js_or (js_Number (i_meters item)) (Fin 0)),
      unit_price = js_Number (i_unit_price item)\<rparr>"

definition reset_values :: "order_row \<Rightarrow> item_row list \<Rightarrow> order_form" where
  "reset_values orderData itemsData =
     \<lparr>customer_name = o_customer_name orderData,
      customer_phone = o_customer_phone orderData,
      status = o_status orderData,
      fabric_price = js_or (js_Number (o_fabric_price orderData)) (Fin 0),
      tailoring_price = js_or (js_Number (o_tailoring_price orderData)) (Fin 0),
      extra_costs = js_or (js_Number (o_extra_costs orderData)) (Fin 0),
      tax_amount = js_or (js_Number (o_tax_amount orderData)) (Fin 0),
      notes_text = Some (str_or (o_notes orderData) []),
      order_items = map reset_item itemsData\<rparr>"


definition header_payload :: "order_form \<Rightarrow> order_update" where
  "header_payload data =
     \<lparr>u_customer_name = customer_name data,
      u_customer_phone = customer_phone data,
      u_status = status data,
      u_total_pieces = totalPieces (order_items data),
      u_total_price = totalPrice data,
      u_fabric_price = fabric_price data,
      u_tailoring_price = tailoring_price data,
      u_extra_costs = extra_costs data,
      u_tax_amount = tax_amount data,
      u_notes = notes_text data\<rparr>"

definition item_payload :: "string \<Rightarrow> form_item \<Rightarrow> item_insert" where
  "item_payload oid item =
     \<lparr>n_order_id = oid,
      n_product_name = product_name item,
      n_model = model item,
      n_size = item_size item,
      n_quantity = quantity item,
      n_meters = meters item,
      n_unit_price = unit_price item,
      n_total_price = js_mul (nullable (quantity item)) (unit_price item)\<rparr>"

definition onSubmit :: "string \<Rightarrow> order_form \<Rightarrow> backend \<Rightarrow> toast \<times> backend" where
  "onSubmit oid data b =
     (case gw_update oid (header_payload data) b of
        (True, b1) \<Rightarrow> (Update_failed, b1)
      | (False, b1) \<Rightarrow>
          (case gw_delete oid b1 of
             (True, b2) \<Rightarrow> (Update_failed, b2)
           | (False, b2) \<Rightarrow>
               (case gw_insert (map (item_payload oid) (order_items data)) b2 of
                  (True, b3) \<Rightarrow> (Update_failed, b3)
                | (False, b3) \<Rightarrow> (Update_succeeded, b3))))"

definition handleSubmit ::
  "string \<Rightarrow> order_form \<Rightarrow> backend \<Rightarrow> issue list \<times> toast option \<times> backend" where
  "handleSubmit oid form b =
     (case orderSchema form of
        [] \<Rightarrow> (case onSubmit oid form b of (t, b') \<Rightarrow> ([], Some t, b'))
      | errors \<Rightarrow> (errors, None, b))"

section \<open>Predicates and sample inputs of the statements\<close>

text \<open>
  \<open>safe_integers\<close> holds of a list of line items whose quantities and unit prices are
  natural numbers with exact sums of at most \<open>2 ^ 53\<close>. \<open>item_triple\<close> is the product
  name, quantity and unit price of a stored item row, the unit price read as a number.
  \<open>finite_row\<close> holds of an item row whose quantity and unit price are not infinities, and
  \<open>ids_below_counter\<close> of a backend whose counter lies above every identifier in use.
\<close>

definition line_item :: "rat \<Rightarrow> rat \<Rightarrow> form_item" where
  "line_item q p = \<lparr>item_id = None, product_name = ''x'', model = None, item_size = None,
     quantity = Some (Fin q), meters = None, unit_price = Fin p\<rparr>"

definition example_form :: order_form where
  "example_form = \<lparr>customer_name = ''c'', customer_phone = ''1'', status = Some ''pending'',
     fabric_price = Fin 3, tailoring_price = Fin 2, extra_costs = Fin 0, tax_amount = Fin 1,
     notes_text = None, order_items = [line_item 2 10, line_item 1 5]\<rparr>"

definition nat_valued :: "jsnum \<Rightarrow> bool" where
  "nat_valued x = (case x of Fin r \<Rightarrow> 0 \<le> r \<and> of_int \<lfloor>r\<rfloor> = r | _ \<Rightarrow> False)"

definition nat_of :: "jsnum \<Rightarrow> nat" where
  "nat_of x = (case x of Fin r \<Rightarrow> nat \<lfloor>r\<rfloor> | _ \<Rightarrow> 0)"

definition exact_items_total :: "form_item list \<Rightarrow> nat" where
  "exact_items_total items =
     sum_list (map (\<lambda>i. nat_of (nullable (quantity i)) * nat_of (unit_price i)) items)"

definition exact_pieces :: "form_item list \<Rightarrow> nat" where
  "exact_pieces items = sum_list (map (\<lambda>i. nat_of (nullable (quantity i))) items)"

definition safe_integers :: "form_item list \<Rightarrow> bool" where
  "safe_integers items =
     (list_all (\<lambda>i. nat_valued (nullable (quantity i)) \<and> nat_valued (unit_price i)) items
      \<and> exact_items_total items \<le> 2 ^ 53 \<and> exact_pieces items \<le> 2 ^ 53)"

definition big_first :: "form_item list" where
  "big_first = [line_item 1 9007199254740992, line_item 1 1, line_item 1 1]"

definition big_last :: "form_item list" where
  "big_last = [line_item 1 1, line_item 1 1, line_item 1 9007199254740992]"

definition decimals_up :: "form_item list" where
  "decimals_up =
     [line_item 1 (3602879701896397 / 36028797018963968),
      line_item 1 (3602879701896397 / 18014398509481984),
      line_item 1 (5404319552844595 / 18014398509481984)]"

definition decimals_down :: "form_item list" where
  "decimals_down =
     [line_item 1 (5404319552844595 / 18014398509481984),
      line_item 1 (3602879701896397 / 18014398509481984),
      line_item 1 (3602879701896397 / 36028797018963968)]"

fun missing_or_non_numeric :: "fetched \<Rightarrow> bool" where
  "missing_or_non_numeric Missing = True"
| "missing_or_non_numeric Null = True"
| "missing_or_non_numeric (Numeric n) = (n = NaN)"
| "missing_or_non_numeric NonNumeric = True"

definition item_requirements :: "form_item \<Rightarrow> bool" where
  "item_requirements item =
     (product_name item \<noteq> []
      \<and> (case quantity item of None \<Rightarrow> False | Some q \<Rightarrow> js_ge q 1)
      \<and> js_ge (unit_price item) 0
      \<and> (case meters item of None \<Rightarrow> True | Some m \<Rightarrow> is_number m))"

definition no_items_form :: order_form where
  "no_items_form = example_form\<lparr>order_items := []\<rparr>"

definition sample_order :: order_row where
  "sample_order = \<lparr>o_id = ''o1'', o_customer_name = ''c'', o_customer_phone = ''1'',
     o_status = Some ''pending'', o_total_pieces = Some (Fin 3), o_total_price = Some (Fin 25),
     o_fabric_price = Missing, o_tailoring_price = Null, o_extra_costs = Missing,
     o_tax_amount = NonNumeric, o_notes = None\<rparr>"

definition sample_item :: "nat \<Rightarrow> rat \<Rightarrow> fetched \<Rightarrow> fetched \<Rightarrow> item_row" where
  "sample_item k q m p = \<lparr>i_id = k, i_order_id = Some ''o1'', i_product_name = ''x'',
     i_model = None, i_size = None, i_quantity = Some (Fin q), i_meters = m, i_unit_price = p,
     i_total_price = None\<rparr>"

definition sample_backend :: "(operation \<Rightarrow> bool) \<Rightarrow> backend" where
  "sample_backend fl = \<lparr>orders_table = [sample_order],
     items_table = [sample_item 0 2 Null (Numeric (Fin 10)), sample_item 1 1 (Numeric (Fin 4)) (Numeric (Fin 5))],
     next_item_id = 2, requests = [], faulty = fl\<rparr>"

definition no_faults :: "operation \<Rightarrow> bool" where
  "no_faults x = False"

definition delete_fails :: "operation \<Rightarrow> bool" where
  "delete_fails x = (x = Delete_items)"


definition order_item_rows :: "string \<Rightarrow> backend \<Rightarrow> item_row list" where
  "order_item_rows oid b = filter (\<lambda>r. i_order_id r = Some oid) (items_table b)"



fun infinite :: "jsnum \<Rightarrow> bool" where
  "infinite PInf = True"
| "infinite NInf = True"
| "infinite x = False"

definition finite_row :: "item_row \<Rightarrow> bool" where
  "finite_row r =
     (\<not> infinite (nullable (i_quantity r)) \<and> \<not> infinite (js_Number (i_unit_price r)))"

definition ids_below_counter :: "backend \<Rightarrow> bool" where
  "ids_below_counter b = list_all (\<lambda>r. i_id r < next_item_id b) (items_table b)"

section \<open>Exact arithmetic on safe integers\<close>

lemma round_even_of_int: "round_even (of_int m) = m"
  by (simp add: round_even_def)

lemma rnd_of_int:
  assumes "\<bar>n\<bar> \<le> 2 ^ 53"
  shows "rnd (of_int n) = Fin (of_int n)"
proof (cases "n = 0")
  case True
  then show ?thesis by (simp add: rnd_def)
next
  case False
  define a where "a = \<bar>n\<bar>"
  define b where "b = bitlen a"
  have a_pos: "0 < a" using False by (simp add: a_def)
  have a_le: "a \<le> 2 ^ 53" using assms by (simp add: a_def)
  have bb: "2 ^ nat (b - 1) \<le> a" "a < 2 ^ nat b"
    using bitlen_bounds [OF a_pos] by (simp_all add: b_def)
  have b_pos: "1 \<le> b"
    using a_pos bitlen_eq_zero_iff [of a] bitlen_nonneg [of a] by (simp add: b_def)
  have "(2::int) ^ nat (b - 1) \<le> 2 ^ 53" using bb(1) a_le by linarith
  then have "nat (b - 1) \<le> 53" by (rule power_le_imp_le_exp [rotated]) simp
  then have b_le: "b \<le> 54" by linarith
  have abs_eq: "\<bar>of_int n :: rat\<bar> = of_int a" by (simp add: a_def)
  have one_le: "(1::rat) \<le> of_int a" using a_pos by simp
  have il: "ilog2 (of_int a) = b - 1"
    using one_le by (simp add: ilog2_def b_def)
  have r_eq: "of_int (round_even (of_int a / pow2 (b - 1 - 52))) * pow2 (b - 1 - 52) = (of_int a :: rat)"
  proof (cases "b \<le> 53")
    case True
    define k where "k = nat (53 - b)"
    have u: "pow2 (b - 1 - 52) = 1 / 2 ^ k"
      using True by (auto simp: pow2_def k_def)
    have "(of_int a :: rat) / (1 / 2 ^ k) = of_int (a * 2 ^ k)" by simp
    then show ?thesis unfolding u by (simp only: round_even_of_int) simp
  next
    case False
    then have b54: "b = 54" using b_le by linarith
    then have "(2::int) ^ 53 \<le> a" using bb(1) by simp
    then have a_eq: "a = 2 ^ 53" using a_le by linarith
    have u: "pow2 (b - 1 - 52) = 2" by (simp add: pow2_def b54)
    have "(of_int a :: rat) / 2 = of_int (2 ^ 52)" by (simp add: a_eq)
    then show ?thesis unfolding u by (simp only: round_even_of_int)
  qed
  have small: "\<not> (0 < (of_int a :: rat) \<and> 1024 \<le> b - 1)"
    using b_le by simp
  have sg: "sgn (of_int n :: rat) * of_int a = of_int n"
    by (simp add: a_def sgn_if)
  have mx: "max (b - 1) (- 1022) = b - 1" using b_pos by simp
  have nz: "((of_int n :: rat) = 0) = False" using False by simp
  show ?thesis
    by (simp only: rnd_def nz if_False abs_eq il mx Let_def r_eq small sg)
qed

lemma rnd_of_nat: "n \<le> 2 ^ 53 \<Longrightarrow> rnd (of_nat n) = Fin (of_nat n)"
proof -
  assume "n \<le> 2 ^ 53"
  then have "int n \<le> int (2 ^ 53)" by (simp only: of_nat_le_iff)
  then have "\<bar>int n\<bar> \<le> 2 ^ 53" by simp
  from rnd_of_int [OF this] show ?thesis by simp
qed

lemma rnd_numeral: "(numeral k :: nat) \<le> 2 ^ 53 \<Longrightarrow> rnd (numeral k) = Fin (numeral k)"
  using rnd_of_nat [of "numeral k"] by simp

lemma rnd_one: "rnd 1 = Fin 1"
  using rnd_of_nat [of 1] by simp

lemma rnd_zero: "rnd 0 = Fin 0"
  by (simp add: rnd_def)

lemma rnd_above_two_53: "rnd 9007199254740993 = Fin 9007199254740992"
  by code_simp

lemma rnd_even_above_two_53: "rnd 9007199254740994 = Fin 9007199254740994"
  by code_simp

lemma js_add_nat:
  "a + b \<le> 2 ^ 53 \<Longrightarrow> js_add (Fin (of_nat a)) (Fin (of_nat b)) = Fin (of_nat (a + b))"
  using rnd_of_nat [of "a + b"] by simp

lemma js_mul_nat:
  "a * b \<le> 2 ^ 53 \<Longrightarrow> js_mul (Fin (of_nat a)) (Fin (of_nat b)) = Fin (of_nat (a * b))"
  using rnd_of_nat [of "a * b"] by simp

lemma nat_valued_Fin: "nat_valued x \<Longrightarrow> x = Fin (of_nat (nat_of x))"
  by (cases x) (auto simp: nat_valued_def nat_of_def)

lemma itemsTotal_fold_exact:
  assumes "list_all (\<lambda>i. nat_valued (nullable (quantity i)) \<and> nat_valued (unit_price i)) xs"
    and "acc + exact_items_total xs \<le> 2 ^ 53"
  shows "foldl (\<lambda>sum item. js_add sum (js_mul (nullable (quantity item)) (unit_price item)))
           (Fin (of_nat acc)) xs = Fin (of_nat (acc + exact_items_total xs))"
  using assms
proof (induction xs arbitrary: acc)
  case Nil
  then show ?case by (simp add: exact_items_total_def)
next
  case (Cons x xs)
  define q where "q = nat_of (nullable (quantity x))"
  define p where "p = nat_of (unit_price x)"
  have qv: "nullable (quantity x) = Fin (of_nat q)" and pv: "unit_price x = Fin (of_nat p)"
    using Cons.prems(1) by (simp_all add: q_def p_def nat_valued_Fin [symmetric])
  have tot: "exact_items_total (x # xs) = q * p + exact_items_total xs"
    by (simp add: exact_items_total_def q_def p_def)
  have le1: "q * p \<le> 2 ^ 53" and le2: "acc + q * p \<le> 2 ^ 53"
    and le3: "(acc + q * p) + exact_items_total xs \<le> 2 ^ 53"
    using Cons.prems(2) unfolding tot by linarith+
  have step: "js_add (Fin (of_nat acc)) (js_mul (nullable (quantity x)) (unit_price x))
                = Fin (of_nat (acc + q * p))"
    unfolding qv pv by (simp only: js_mul_nat [OF le1] js_add_nat [OF le2])
  have rest: "list_all (\<lambda>i. nat_valued (nullable (quantity i)) \<and> nat_valued (unit_price i)) xs"
    using Cons.prems(1) by simp
  show ?case
    unfolding foldl_Cons step Cons.IH [OF rest le3] tot by (simp add: add.assoc)
qed

lemma totalPieces_fold_exact:
  assumes "list_all (\<lambda>i. nat_valued (nullable (quantity i)) \<and> nat_valued (unit_price i)) xs"
    and "acc + exact_pieces xs \<le> 2 ^ 53"
  shows "foldl (\<lambda>sum item. js_add sum (nullable (quantity item)))
           (Fin (of_nat acc)) xs = Fin (of_nat (acc + exact_pieces xs))"
  using assms
proof (induction xs arbitrary: acc)
  case Nil
  then show ?case by (simp add: exact_pieces_def)
next
  case (Cons x xs)
  define q where "q = nat_of (nullable (quantity x))"
  have qv: "nullable (quantity x) = Fin (of_nat q)"
    using Cons.prems(1) by (simp_all add: q_def nat_valued_Fin [symmetric])
  have tot: "exact_pieces (x # xs) = q + exact_pieces xs"
    by (simp add: exact_pieces_def q_def)
  have le2: "acc + q \<le> 2 ^ 53" and le3: "(acc + q) + exact_pieces xs \<le> 2 ^ 53"
    using Cons.prems(2) unfolding tot by linarith+
  have step: "js_add (Fin (of_nat acc)) (nullable (quantity x)) = Fin (of_nat (acc + q))"
    unfolding qv by (simp only: js_add_nat [OF le2])
  have rest: "list_all (\<lambda>i. nat_valued (nullable (quantity i)) \<and> nat_valued (unit_price i)) xs"
    using Cons.prems(1) by simp
  show ?case
    unfolding foldl_Cons step Cons.IH [OF rest le3] tot by (simp add: add.assoc)
qed

lemma itemsTotal_exact:
  "safe_integers xs \<Longrightarrow> itemsTotal xs = Fin (of_nat (exact_items_total xs))"
  using itemsTotal_fold_exact [of xs 0] by (simp add: safe_integers_def itemsTotal_def)

lemma totalPieces_exact:
  "safe_integers xs \<Longrightarrow> totalPieces xs = Fin (of_nat (exact_pieces xs))"
  using totalPieces_fold_exact [of xs 0] by (simp add: safe_integers_def totalPieces_def)

lemma sum_list_map_mset:
  fixes f :: "'a \<Rightarrow> nat"
  shows "mset ys = mset xs \<Longrightarrow> sum_list (map f ys) = sum_list (map f xs)"
proof -
  assume eq: "mset ys = mset xs"
  have "sum_list (map f ys) = sum_mset (image_mset f (mset ys))"
    by (simp flip: sum_mset_sum_list)
  also have "\<dots> = sum_mset (image_mset f (mset xs))" by (simp only: eq)
  also have "\<dots> = sum_list (map f xs)" by (simp flip: sum_mset_sum_list)
  finally show ?thesis .
qed

lemma safe_integers_mset:
  assumes "mset ys = mset xs" and "safe_integers xs"
  shows "safe_integers ys \<and> exact_items_total ys = exact_items_total xs
           \<and> exact_pieces ys = exact_pieces xs"
proof -
  have s: "set ys = set xs" using assms(1) by (rule mset_eq_setD)
  have t: "exact_items_total ys = exact_items_total xs"
    unfolding exact_items_total_def by (rule sum_list_map_mset [OF assms(1)])
  have p: "exact_pieces ys = exact_pieces xs"
    unfolding exact_pieces_def by (rule sum_list_map_mset [OF assms(1)])
  show ?thesis using assms(2) by (simp add: safe_integers_def t p list_all_iff s)
qed

section \<open>Derived totals of the order form\<close>

lemma js_or_zero: "x \<noteq> NaN \<Longrightarrow> js_or x (Fin 0) = x"
  by (cases x) (auto simp: js_or_def)

lemma example_totals:
  "totalPieces (order_items example_form) = Fin 3
   \<and> itemsTotal (order_items example_form) = Fin 25
   \<and> totalPrice example_form = Fin 31"
  by (simp add: example_form_def itemsTotal_def totalPieces_def totalPrice_def watchedPrices_def
      js_or_def line_item_def rnd_zero rnd_one rnd_numeral)

text \<open>
  C1. The derived totals of the order form are the JavaScript sums, taken in list order from 0,
  of the line totals \<open>quantity * unit_price\<close> (\<open>itemsTotal\<close>) and of the quantities
  (\<open>totalPieces\<close>; a null quantity counts as 0, as JavaScript arithmetic coerces it), and
  for every four surcharge numbers (none of them NaN) \<open>totalPrice\<close> is \<open>itemsTotal\<close> plus
  fabric price, tailoring price, extra costs and tax amount, added in that order. For the items
  \<open>[{qty:2, price:10}, {qty:1, price:5}]\<close> with surcharges 3, 2, 0 and 1 the controller
  computes 3 pieces, an items total of 25 and a total price of 31.
\<close>

theorem C1_derived_totals:
  "itemsTotal items = js_sum (map (\<lambda>i. js_mul (nullable (quantity i)) (unit_price i)) items)
   \<and> totalPieces items = js_sum (map (\<lambda>i. nullable (quantity i)) items)
   \<and> (fabric_price f \<noteq> NaN \<and> tailoring_price f \<noteq> NaN \<and> extra_costs f \<noteq> NaN
          \<and> tax_amount f \<noteq> NaN \<longrightarrow>
        totalPrice f =
          js_add (js_add (js_add (js_add (itemsTotal (order_items f)) (fabric_price f))
            (tailoring_price f)) (extra_costs f)) (tax_amount f))
   \<and> totalPieces (order_items example_form) = Fin 3
   \<and> itemsTotal (order_items example_form) = Fin 25
   \<and> totalPrice example_form = Fin 31"
proof -
  have a: "itemsTotal items = js_sum (map (\<lambda>i. js_mul (nullable (quantity i)) (unit_price i)) items)"
    by (simp add: itemsTotal_def js_sum_def foldl_map)
  have b: "totalPieces items = js_sum (map (\<lambda>i. nullable (quantity i)) items)"
    by (simp add: totalPieces_def js_sum_def foldl_map)
  have c: "fabric_price f \<noteq> NaN \<and> tailoring_price f \<noteq> NaN \<and> extra_costs f \<noteq> NaN
          \<and> tax_amount f \<noteq> NaN \<longrightarrow>
        totalPrice f =
          js_add (js_add (js_add (js_add (itemsTotal (order_items f)) (fabric_price f))
            (tailoring_price f)) (extra_costs f)) (tax_amount f)"
    by (simp add: totalPrice_def watchedPrices_def js_or_zero)
  from a b c example_totals show ?thesis by (simp only: simp_thms)
qed

theorem C1_derived_totals_witness:
  "(fabric_price example_form \<noteq> NaN \<and> tailoring_price example_form \<noteq> NaN
    \<and> extra_costs example_form \<noteq> NaN \<and> tax_amount example_form \<noteq> NaN)
   \<and> totalPrice example_form =
         js_add (js_add (js_add (js_add (itemsTotal (order_items example_form))
           (fabric_price example_form)) (tailoring_price example_form))
           (extra_costs example_form)) (tax_amount example_form)
   \<and> totalPrice example_form = Fin 31"
proof -
  have h: "fabric_price example_form \<noteq> NaN \<and> tailoring_price example_form \<noteq> NaN
     \<and> extra_costs example_form \<noteq> NaN \<and> tax_amount example_form \<noteq> NaN"
    by (simp add: example_form_def)
  note C = C1_derived_totals [of "order_items example_form" example_form]
  from C h have e: "totalPrice example_form =
         js_add (js_add (js_add (js_add (itemsTotal (order_items example_form))
           (fabric_price example_form)) (tailoring_price example_form))
           (extra_costs example_form)) (tax_amount example_form)"
    by blast
  from C have t: "totalPrice example_form = Fin 31" by blast
  from h e t show ?thesis by blast
qed

section \<open>Reordering the line items\<close>

text \<open>
  The unit prices of \<open>decimals_up\<close> are the doubles of the literals 0.1, 0.2 and 0.3.
  Added in this order they give the double 0.6000000000000001, in the reverse order the
  double 0.6.
\<close>

lemma decimal_literals:
  "rnd (1 / 10) = Fin (3602879701896397 / 36028797018963968)
   \<and> rnd (2 / 10) = Fin (3602879701896397 / 18014398509481984)
   \<and> rnd (3 / 10) = Fin (5404319552844595 / 18014398509481984)
   \<and> rnd (6 / 10) = Fin (5404319552844595 / 9007199254740992)"
  by code_simp

lemma decimal_prices_order:
  "itemsTotal decimals_up = Fin (1351079888211149 / 2251799813685248)
   \<and> itemsTotal decimals_down = Fin (5404319552844595 / 9007199254740992)"
  by code_simp

theorem C9_permutation_counterexample:
  "mset big_last = mset big_first
   \<and> itemsTotal big_first = Fin 9007199254740992
   \<and> itemsTotal big_last = Fin 9007199254740994
   \<and> itemsTotal big_last \<noteq> itemsTotal big_first"
proof -
  have a: "mset big_last = mset big_first"
    by (simp add: big_last_def big_first_def)
  have b: "itemsTotal big_first = Fin 9007199254740992"
    by (simp add: big_first_def itemsTotal_def line_item_def rnd_zero rnd_one rnd_numeral
        rnd_above_two_53 rnd_even_above_two_53)
  have c: "itemsTotal big_last = Fin 9007199254740994"
    by (simp add: big_last_def itemsTotal_def line_item_def rnd_zero rnd_one rnd_numeral
        rnd_above_two_53 rnd_even_above_two_53)
  from a b c show ?thesis by simp
qed

text \<open>
  C9 (as amended). For a list of line items whose quantities and unit prices are non-negative
  integers with both the exact sum of \<open>quantity * unit_price\<close> and the exact sum of the
  quantities at most \<open>2 ^ 53\<close>, every double operation of the fold is exact, and every
  permutation of the list (surcharges held fixed) gives the same \<open>itemsTotal\<close>,
  \<open>totalPieces\<close> and \<open>totalPrice\<close>. Without that bound the rounding of each addition
  makes \<open>itemsTotal\<close> depend on the order of the items.
\<close>

theorem C9_permutation_safe_integers:
  assumes "safe_integers xs" and "mset ys = mset xs"
  shows "itemsTotal ys = itemsTotal xs \<and> totalPieces ys = totalPieces xs
         \<and> totalPrice (f\<lparr>order_items := ys\<rparr>) = totalPrice (f\<lparr>order_items := xs\<rparr>)"
proof -
  from safe_integers_mset [OF assms(2) assms(1)]
  have sy: "safe_integers ys" and t: "exact_items_total ys = exact_items_total xs"
    and p: "exact_pieces ys = exact_pieces xs" by simp_all
  have a: "itemsTotal ys = itemsTotal xs"
    by (simp only: itemsTotal_exact [OF sy] itemsTotal_exact [OF assms(1)] t)
  have b: "totalPieces ys = totalPieces xs"
    by (simp only: totalPieces_exact [OF sy] totalPieces_exact [OF assms(1)] p)
  have c: "totalPrice (f\<lparr>order_items := ys\<rparr>) = totalPrice (f\<lparr>order_items := xs\<rparr>)"
    by (simp add: totalPrice_def watchedPrices_def a)
  from a b c show ?thesis by simp
qed

theorem C9_permutation_safe_integers_witness:
  "safe_integers [line_item 2 10, line_item 1 5]
   \<and> mset [line_item 1 5, line_item 2 10] = mset [line_item 2 10, line_item 1 5]
   \<and> itemsTotal [line_item 1 5, line_item 2 10] = itemsTotal [line_item 2 10, line_item 1 5]
   \<and> totalPieces [line_item 1 5, line_item 2 10] = totalPieces [line_item 2 10, line_item 1 5]
   \<and> totalPrice (example_form\<lparr>order_items := [line_item 1 5, line_item 2 10]\<rparr>)
       = totalPrice (example_form\<lparr>order_items := [line_item 2 10, line_item 1 5]\<rparr>)"
proof -
  have s: "safe_integers [line_item 2 10, line_item 1 5]"
    by (simp add: safe_integers_def exact_items_total_def exact_pieces_def nat_valued_def
        nat_of_def line_item_def)
  have m: "mset [line_item 1 5, line_item 2 10] = mset [line_item 2 10, line_item 1 5]"
    by simp
  from C9_permutation_safe_integers [OF s m, of example_form] s m show ?thesis
    by (simp only: simp_thms)
qed

section \<open>The status badge\<close>

lemma badge_defined_keys:
  "getStatusBadge ''pending'' = \<lparr>variant = Str ''outline'', children = Str label_in_progress\<rparr>"
  "getStatusBadge ''completed'' = \<lparr>variant = Str ''default'', children = Str label_complete\<rparr>"
  "getStatusBadge ''cancelled'' = \<lparr>variant = Str ''destructive'', children = Str label_cancelled\<rparr>"
  by (simp_all add: getStatusBadge_def get_prop_def variants_def labels_def prop_or_def
      label_in_progress_def label_complete_def label_cancelled_def)

lemma badge_fallback:
  assumes "status_text \<notin> {''pending'', ''completed'', ''cancelled''}"
    and "status_text \<notin> set object_prototype"
  shows "getStatusBadge status_text = \<lparr>variant = Str ''secondary'', children = Str status_text\<rparr>"
  using assms
  by (simp add: getStatusBadge_def get_prop_def variants_def labels_def prop_or_def)

text \<open>
  C7. A status outside pending, completed and cancelled should give the fallback badge: the
  neutral variant \<open>secondary\<close> and the status text as label. For the status
  \<open>constructor\<close> the lookups \<open>variants[status]\<close> and \<open>labels[status]\<close> find the member
  inherited from \<open>Object.prototype\<close>, which is truthy, so neither \<open>||\<close> fallback is taken:
  the badge gets the inherited function as its variant and as its child.
\<close>

theorem C7_badge_inherited_key:
  "getStatusBadge ''constructor''
     = \<lparr>variant = Inherited ''constructor'', children = Inherited ''constructor''\<rparr>
   \<and> getStatusBadge ''constructor''
     \<noteq> \<lparr>variant = Str ''secondary'', children = Str ''constructor''\<rparr>"
  by (simp add: getStatusBadge_def get_prop_def variants_def labels_def prop_or_def
      object_prototype_def)

section \<open>The dashboard statistics\<close>

lemma filter_disjoint_length:
  "(\<And>x. \<not> (P x \<and> Q x)) \<Longrightarrow> length (filter P xs) + length (filter Q xs) \<le> length xs"
  by (induction xs) auto

text \<open>
  C10. For every fetched list of order rows the statistics hold: \<open>totalOrders\<close> is the number
  of rows, \<open>totalRevenue\<close> is the JavaScript sum, in row order from 0, of \<open>Number(total_price)\<close>,
  \<open>pendingOrders\<close> and \<open>completedOrders\<close> are the numbers of row positions whose status is
  \<open>pending\<close> and \<open>completed\<close>, and so their sum is at most \<open>totalOrders\<close>.
\<close>

theorem C10_dashboard_stats:
  "totalOrders (fetchStats (Some os) cs st) = length os
   \<and> totalRevenue (fetchStats (Some os) cs st)
       = js_sum (map (\<lambda>order. js_Number (row_total_price order)) os)
   \<and> pendingOrders (fetchStats (Some os) cs st)
       = card {k. k < length os \<and> row_status (os ! k) = Some ''pending''}
   \<and> completedOrders (fetchStats (Some os) cs st)
       = card {k. k < length os \<and> row_status (os ! k) = Some ''completed''}
   \<and> pendingOrders (fetchStats (Some os) cs st) + completedOrders (fetchStats (Some os) cs st)
       \<le> totalOrders (fetchStats (Some os) cs st)"
proof -
  have d: "length (filter (\<lambda>order. row_status order = Some ''pending'') os)
         + length (filter (\<lambda>order. row_status order = Some ''completed'') os) \<le> length os"
    by (rule filter_disjoint_length) simp
  show ?thesis
    using d by (simp add: fetchStats_def js_sum_def foldl_map length_filter_conv_card)
qed

section \<open>Validation\<close>

lemma string_min1_empty: "(string_min1 p m s = []) = (s \<noteq> [])"
  by (simp add: string_min1_def)

lemma number_min_empty: "(number_min p m lo x = []) = js_ge x lo"
  by (cases x) (simp_all add: number_min_def)

lemma status_enum_empty:
  "(status_enum s = []) = (s \<in> {Some ''pending'', Some ''completed'', Some ''cancelled''})"
  by (simp add: status_enum_def)

lemma validate_item_empty: "(validate_item k item = []) = item_requirements item"
  by (auto simp: validate_item_def item_requirements_def string_min1_empty number_min_empty
      split: option.splits)

lemma validate_items_empty: "(validate_items k its = []) = list_all item_requirements its"
  by (induction its arbitrary: k) (simp_all add: validate_item_empty)

lemma orderSchema_empty:
  "(orderSchema f = []) =
     (customer_name f \<noteq> [] \<and> customer_phone f \<noteq> []
      \<and> status f \<in> {Some ''pending'', Some ''completed'', Some ''cancelled''}
      \<and> js_ge (fabric_price f) 0 \<and> js_ge (tailoring_price f) 0
      \<and> js_ge (extra_costs f) 0 \<and> js_ge (tax_amount f) 0
      \<and> list_all item_requirements (order_items f))"
  by (simp only: orderSchema_def append_is_Nil_conv string_min1_empty number_min_empty
      status_enum_empty validate_items_empty)

lemma example_form_valid: "orderSchema example_form = []"
  by (simp add: orderSchema_def example_form_def line_item_def string_min1_def status_enum_def
      number_min_def validate_item_def)

theorem C5_no_items_counterexample:
  "order_items no_items_form = [] \<and> orderSchema no_items_form = []"
  by (simp add: no_items_form_def orderSchema_def example_form_def string_min1_def
      status_enum_def number_min_def)

text \<open>
  C5 (as amended). Form validation puts no lower bound on the number of line items: a form
  passes exactly when customer name and phone are non-empty, the status is one of the three
  values, the four surcharges are numbers that are at least 0, and every line item that is
  present has a non-empty product name, a quantity that is a number at least 1 and a unit
  price that is a number at least 0, its meters being absent or a number and its model and
  size unconstrained. That one item remains is kept only by the remove button, which is
  offered while the list has more than one row, so a removal never empties the list.
\<close>

theorem C5_validation_requirements:
  "(orderSchema f = []) =
     (customer_name f \<noteq> [] \<and> customer_phone f \<noteq> []
      \<and> status f \<in> {Some ''pending'', Some ''completed'', Some ''cancelled''}
      \<and> js_ge (fabric_price f) 0 \<and> js_ge (tailoring_price f) 0
      \<and> js_ge (extra_costs f) 0 \<and> js_ge (tax_amount f) 0
      \<and> list_all item_requirements (order_items f))
   \<and> (click_remove index item_fields = Some rest \<longrightarrow> rest \<noteq> [])"
proof -
  have "click_remove index item_fields = Some rest \<longrightarrow> rest \<noteq> []"
  proof
    assume c: "click_remove index item_fields = Some rest"
    then have l: "1 < length item_fields" and r: "rest = remove_at index item_fields"
      by (auto simp: click_remove_def split: if_splits)
    have "length (remove_at index item_fields) \<ge> length item_fields - 1"
      by (simp add: remove_at_def)
    with l r show "rest \<noteq> []" by auto
  qed
  with orderSchema_empty [of f] show ?thesis by (simp only: simp_thms)
qed

theorem C5_validation_requirements_witness:
  "(orderSchema example_form = []) =
     (customer_name example_form \<noteq> [] \<and> customer_phone example_form \<noteq> []
      \<and> status example_form \<in> {Some ''pending'', Some ''completed'', Some ''cancelled''}
      \<and> js_ge (fabric_price example_form) 0 \<and> js_ge (tailoring_price example_form) 0
      \<and> js_ge (extra_costs example_form) 0 \<and> js_ge (tax_amount example_form) 0
      \<and> list_all item_requirements (order_items example_form))
   \<and> click_remove 0 (order_items example_form) = Some [line_item 1 5]
   \<and> [line_item 1 5] \<noteq> []
   \<and> list_all item_requirements (order_items example_form)"
proof -
  have c: "click_remove 0 (order_items example_form) = Some [line_item 1 5]"
    by (simp add: click_remove_def remove_at_def example_form_def)
  note T = C5_validation_requirements [of example_form 0 "order_items example_form" "[line_item 1 5]"]
  from T have a: "(orderSchema example_form = []) =
     (customer_name example_form \<noteq> [] \<and> customer_phone example_form \<noteq> []
      \<and> status example_form \<in> {Some ''pending'', Some ''completed'', Some ''cancelled''}
      \<and> js_ge (fabric_price example_form) 0 \<and> js_ge (tailoring_price example_form) 0
      \<and> js_ge (extra_costs example_form) 0 \<and> js_ge (tax_amount example_form) 0
      \<and> list_all item_requirements (order_items example_form))" by (rule conjunct1)
  from T c have n: "[line_item 1 5] \<noteq> []" by blast
  from a example_form_valid have l: "list_all item_requirements (order_items example_form)"
    by simp
  from a c n l show ?thesis by blast
qed

text \<open>
  C8. A submit with an empty customer name is rejected by the schema before any request:
  the backend, and with it the log of requests, is unchanged, no toast is shown, and the
  issues returned carry the message of the customer-name field.
\<close>

theorem C8_empty_customer_name_rejected:
  assumes "customer_name f = []"
  shows "handleSubmit oid f b = (orderSchema f, None, b)
         \<and> requests (snd (snd (handleSubmit oid f b))) = requests b
         \<and> (Customer_name, Customer_name_required) \<in> set (orderSchema f)"
proof -
  obtain rest where e: "orderSchema f = (Customer_name, Customer_name_required) # rest"
    using assms by (simp add: orderSchema_def string_min1_def)
  then have h: "handleSubmit oid f b = (orderSchema f, None, b)"
    by (simp add: handleSubmit_def)
  from e h show ?thesis by simp
qed

theorem C8_empty_customer_name_rejected_witness:
  "customer_name defaultValues = []
   \<and> handleSubmit ''o1'' defaultValues (sample_backend no_faults)
       = (orderSchema defaultValues, None, sample_backend no_faults)
   \<and> requests (snd (snd (handleSubmit ''o1'' defaultValues (sample_backend no_faults)))) = []
   \<and> (Customer_name, Customer_name_required) \<in> set (orderSchema defaultValues)"
proof -
  have h: "customer_name defaultValues = []" by (simp add: defaultValues_def)
  have r: "requests (sample_backend no_faults) = []" by (simp add: sample_backend_def)
  from C8_empty_customer_name_rejected [OF h, of "''o1''" "sample_backend no_faults"] h r
  show ?thesis by simp
qed

section \<open>Seeding the form from the fetched rows\<close>

lemma seeded_zero: "missing_or_non_numeric v \<Longrightarrow> js_or (js_Number v) (Fin 0) = Fin 0"
  by (cases v) (simp_all add: js_or_def)

theorem C6_unit_price_counterexample:
  "missing_or_non_numeric (i_unit_price (sample_item 0 2 Null Missing))
   \<and> unit_price (order_items (reset_values sample_order [sample_item 0 2 Null Missing]) ! 0) = NaN
   \<and> unit_price (order_items (reset_values sample_order [sample_item 0 2 Null Missing]) ! 0)
       \<noteq> Fin 0"
  by (simp add: reset_values_def reset_item_def sample_item_def)

text \<open>
  C6 (as amended). When the form is initialised for an existing order, each of the header
  fields fabric price, tailoring price, extra costs and tax amount, and the meters of each
  item, is seeded as 0 when it is missing or non-numeric in the fetched row. The unit price
  of an item is seeded as \<open>Number(unit_price)\<close> with no fallback to zero: 0 for null, NaN
  when the value is missing or non-numeric.
\<close>

theorem C6_seeded_fields:
  "(missing_or_non_numeric (o_fabric_price od) \<longrightarrow> fabric_price (reset_values od ids) = Fin 0)
   \<and> (missing_or_non_numeric (o_tailoring_price od) \<longrightarrow>
        tailoring_price (reset_values od ids) = Fin 0)
   \<and> (missing_or_non_numeric (o_extra_costs od) \<longrightarrow> extra_costs (reset_values od ids) = Fin 0)
   \<and> (missing_or_non_numeric (o_tax_amount od) \<longrightarrow> tax_amount (reset_values od ids) = Fin 0)
   \<and> length (order_items (reset_values od ids)) = length ids
   \<and> (\<forall>k<length ids.
        (missing_or_non_numeric (i_meters (ids ! k)) \<longrightarrow>
           meters (order_items (reset_values od ids) ! k) = Some (Fin 0))
        \<and> unit_price (order_items (reset_values od ids) ! k) = js_Number (i_unit_price (ids ! k)))"
  by (simp add: reset_values_def reset_item_def seeded_zero)

theorem C6_seeded_fields_witness:
  "missing_or_non_numeric (o_fabric_price sample_order)
   \<and> missing_or_non_numeric (o_tailoring_price sample_order)
   \<and> missing_or_non_numeric (o_extra_costs sample_order)
   \<and> missing_or_non_numeric (o_tax_amount sample_order)
   \<and> missing_or_non_numeric (i_meters (sample_item 0 2 Null (Numeric (Fin 10))))
   \<and> fabric_price (reset_values sample_order [sample_item 0 2 Null (Numeric (Fin 10))]) = Fin 0
   \<and> tailoring_price (reset_values sample_order [sample_item 0 2 Null (Numeric (Fin 10))]) = Fin 0
   \<and> extra_costs (reset_values sample_order [sample_item 0 2 Null (Numeric (Fin 10))]) = Fin 0
   \<and> tax_amount (reset_values sample_order [sample_item 0 2 Null (Numeric (Fin 10))]) = Fin 0
   \<and> meters (order_items (reset_values sample_order [sample_item 0 2 Null (Numeric (Fin 10))]) ! 0)
       = Some (Fin 0)
   \<and> unit_price (order_items (reset_values sample_order [sample_item 0 2 Null (Numeric (Fin 10))]) ! 0)
       = Fin 10"
proof -
  have h: "missing_or_non_numeric (o_fabric_price sample_order)"
    "missing_or_non_numeric (o_tailoring_price sample_order)"
    "missing_or_non_numeric (o_extra_costs sample_order)"
    "missing_or_non_numeric (o_tax_amount sample_order)"
    "missing_or_non_numeric (i_meters (sample_item 0 2 Null (Numeric (Fin 10))))"
    by (simp_all add: sample_order_def sample_item_def)
  have u: "js_Number (i_unit_price (sample_item 0 2 Null (Numeric (Fin 10)))) = Fin 10"
    by (simp add: sample_item_def)
  from C6_seeded_fields [of sample_order "[sample_item 0 2 Null (Numeric (Fin 10))]"] h u
  show ?thesis by simp
qed

section \<open>The three writes of a submit\<close>

lemma onSubmit_result:
  "onSubmit oid data b =
     (if faulty b Update_order \<or> faulty b Delete_items \<or> faulty b Insert_items
      then Update_failed else Update_succeeded,
      b\<lparr>requests := requests b @
           (if faulty b Update_order then [Req_update oid (header_payload data)]
            else if faulty b Delete_items
              then [Req_update oid (header_payload data), Req_delete oid]
            else [Req_update oid (header_payload data), Req_delete oid,
                  Req_insert (map (item_payload oid) (order_items data))]),
        orders_table :=
          (if faulty b Update_order then orders_table b
           else map (\<lambda>r. if o_id r = oid then apply_update (header_payload data) r else r)
                  (orders_table b)),
        items_table :=
          (if faulty b Update_order \<or> faulty b Delete_items then items_table b
           else if faulty b Insert_items
             then filter (\<lambda>r. i_order_id r \<noteq> Some oid) (items_table b)
           else filter (\<lambda>r. i_order_id r \<noteq> Some oid) (items_table b)
                @ store_items (next_item_id b) (map (item_payload oid) (order_items data))),
        next_item_id :=
          (if faulty b Update_order \<or> faulty b Delete_items \<or> faulty b Insert_items
           then next_item_id b else next_item_id b + length (order_items data))\<rparr>)"
  by (cases "faulty b Update_order"; cases "faulty b Delete_items";
      cases "faulty b Insert_items")
    (simp_all add: onSubmit_def gw_update_def gw_delete_def gw_insert_def Let_def)

text \<open>
  C2. A valid form that is submitted issues its writes in sequence: the update of the order
  header, then the delete of all item rows of the order, then one insert with a row per
  line item whose \<open>total_price\<close> is \<open>quantity * unit_price\<close>. When a write fails, the
  later writes are not issued, the failure toast (the same for every step) is shown, and
  the effects of the writes already done stay in the tables.
\<close>

theorem C2_submit_sequence:
  assumes "orderSchema data = []"
  shows "handleSubmit oid data b =
     ([],
      Some (if faulty b Update_order \<or> faulty b Delete_items \<or> faulty b Insert_items
            then Update_failed else Update_succeeded),
      b\<lparr>requests := requests b @
           (if faulty b Update_order then [Req_update oid (header_payload data)]
            else if faulty b Delete_items
              then [Req_update oid (header_payload data), Req_delete oid]
            else [Req_update oid (header_payload data), Req_delete oid,
                  Req_insert (map (item_payload oid) (order_items data))]),
        orders_table :=
          (if faulty b Update_order then orders_table b
           else map (\<lambda>r. if o_id r = oid then apply_update (header_payload data) r else r)
                  (orders_table b)),
        items_table :=
          (if faulty b Update_order \<or> faulty b Delete_items then items_table b
           else if faulty b Insert_items
             then filter (\<lambda>r. i_order_id r \<noteq> Some oid) (items_table b)
           else filter (\<lambda>r. i_order_id r \<noteq> Some oid) (items_table b)
                @ store_items (next_item_id b) (map (item_payload oid) (order_items data))),
        next_item_id :=
          (if faulty b Update_order \<or> faulty b Delete_items \<or> faulty b Insert_items
           then next_item_id b else next_item_id b + length (order_items data))\<rparr>)
   \<and> length (map (item_payload oid) (order_items data)) = length (order_items data)
   \<and> map n_total_price (map (item_payload oid) (order_items data))
       = map (\<lambda>item. js_mul (nullable (quantity item)) (unit_price item)) (order_items data)"
proof -
  have t: "map n_total_price (map (item_payload oid) (order_items data))
       = map (\<lambda>item. js_mul (nullable (quantity item)) (unit_price item)) (order_items data)"
    by (simp add: item_payload_def)
  have l: "length (map (item_payload oid) (order_items data)) = length (order_items data)"
    by simp
  have "handleSubmit oid data b =
     (case onSubmit oid data b of (t, b') \<Rightarrow> ([], Some t, b'))"
    using assms by (simp add: handleSubmit_def)
  then show ?thesis
    unfolding onSubmit_result using t l by (simp only: prod.case simp_thms)
qed


theorem C2_submit_sequence_witness:
  "orderSchema example_form = []
   \<and> handleSubmit ''o1'' example_form (sample_backend delete_fails) =
       ([], Some Update_failed,
        (sample_backend delete_fails)
          \<lparr>requests := [Req_update ''o1'' (header_payload example_form), Req_delete ''o1''],
           orders_table := [apply_update (header_payload example_form) sample_order]\<rparr>)
   \<and> items_table (snd (snd (handleSubmit ''o1'' example_form (sample_backend delete_fails))))
       = items_table (sample_backend delete_fails)"
proof -
  have f: "\<not> faulty (sample_backend delete_fails) Update_order"
    "faulty (sample_backend delete_fails) Delete_items"
    by (simp_all add: sample_backend_def delete_fails_def)
  have o: "orders_table (sample_backend delete_fails) = [sample_order]"
    "requests (sample_backend delete_fails) = []" "o_id sample_order = ''o1''"
    by (simp_all add: sample_backend_def sample_order_def)
  from C2_submit_sequence [OF example_form_valid, of "''o1''" "sample_backend delete_fails"]
  show ?thesis by (simp add: f o example_form_valid)
qed



text \<open>
  C3. When the header update of a submit succeeds and the delete of the item rows fails,
  the failure toast is shown, the item rows are exactly those from before the submit, and
  every order row with the identifier of the order holds the submitted values (numbers as
  JSON writes them; notes are written when the form has them).
\<close>

lemma apply_update_fields:
  "o_id (apply_update u r) = o_id r"
  "o_customer_name (apply_update u r) = u_customer_name u"
  "o_customer_phone (apply_update u r) = u_customer_phone u"
  "o_status (apply_update u r) = u_status u"
  "o_total_pieces (apply_update u r) = json_nullable (u_total_pieces u)"
  "o_total_price (apply_update u r) = json_nullable (u_total_price u)"
  "o_fabric_price (apply_update u r) = json_number (u_fabric_price u)"
  "o_tailoring_price (apply_update u r) = json_number (u_tailoring_price u)"
  "o_extra_costs (apply_update u r) = json_number (u_extra_costs u)"
  "o_tax_amount (apply_update u r) = json_number (u_tax_amount u)"
  "u_notes u = Some t \<Longrightarrow> o_notes (apply_update u r) = Some t"
  by (simp_all add: apply_update_def)

lemma updated_row:
  "r \<in> set (map (\<lambda>r. if o_id r = oid then apply_update u r else r) rows) \<Longrightarrow> o_id r = oid
   \<Longrightarrow> \<exists>r0. r = apply_update u r0"
  by (auto split: if_splits)

lemma header_payload_fields:
  "u_customer_name (header_payload data) = customer_name data"
  "u_customer_phone (header_payload data) = customer_phone data"
  "u_status (header_payload data) = status data"
  "u_total_pieces (header_payload data) = totalPieces (order_items data)"
  "u_total_price (header_payload data) = totalPrice data"
  "u_fabric_price (header_payload data) = fabric_price data"
  "u_tailoring_price (header_payload data) = tailoring_price data"
  "u_extra_costs (header_payload data) = extra_costs data"
  "u_tax_amount (header_payload data) = tax_amount data"
  "u_notes (header_payload data) = notes_text data"
  by (simp_all add: header_payload_def)

theorem C3_delete_failure_frame:
  assumes "\<not> faulty b Update_order" and "faulty b Delete_items"
  shows "fst (onSubmit oid data b) = Update_failed
   \<and> items_table (snd (onSubmit oid data b)) = items_table b
   \<and> map o_id (orders_table (snd (onSubmit oid data b))) = map o_id (orders_table b)
   \<and> (\<forall>r \<in> set (orders_table (snd (onSubmit oid data b))). o_id r = oid \<longrightarrow>
         o_customer_name r = customer_name data
         \<and> o_customer_phone r = customer_phone data
         \<and> o_status r = status data
         \<and> o_total_pieces r = json_nullable (totalPieces (order_items data))
         \<and> o_total_price r = json_nullable (totalPrice data)
         \<and> o_fabric_price r = json_number (fabric_price data)
         \<and> o_tailoring_price r = json_number (tailoring_price data)
         \<and> o_extra_costs r = json_number (extra_costs data)
         \<and> o_tax_amount r = json_number (tax_amount data)
         \<and> (\<forall>t. notes_text data = Some t \<longrightarrow> o_notes r = Some t))"
proof -
  let ?u = "header_payload data"
  have a: "fst (onSubmit oid data b) = Update_failed"
    using assms by (simp add: onSubmit_result)
  have i: "items_table (snd (onSubmit oid data b)) = items_table b"
    using assms by (simp add: onSubmit_result)
  have o: "orders_table (snd (onSubmit oid data b))
      = map (\<lambda>r. if o_id r = oid then apply_update ?u r else r) (orders_table b)"
    using assms by (simp add: onSubmit_result)
  have m: "map o_id (orders_table (snd (onSubmit oid data b))) = map o_id (orders_table b)"
    unfolding o by (simp add: apply_update_fields(1) comp_def if_distrib [of o_id])
  have h: "\<forall>r \<in> set (orders_table (snd (onSubmit oid data b))). o_id r = oid \<longrightarrow>
         o_customer_name r = customer_name data
         \<and> o_customer_phone r = customer_phone data
         \<and> o_status r = status data
         \<and> o_total_pieces r = json_nullable (totalPieces (order_items data))
         \<and> o_total_price r = json_nullable (totalPrice data)
         \<and> o_fabric_price r = json_number (fabric_price data)
         \<and> o_tailoring_price r = json_number (tailoring_price data)
         \<and> o_extra_costs r = json_number (extra_costs data)
         \<and> o_tax_amount r = json_number (tax_amount data)
         \<and> (\<forall>t. notes_text data = Some t \<longrightarrow> o_notes r = Some t)"
  proof (intro ballI impI)
    fix r
    assume "r \<in> set (orders_table (snd (onSubmit oid data b)))" and "o_id r = oid"
    then obtain r0 where r: "r = apply_update ?u r0"
      unfolding o using updated_row by blast
    show "o_customer_name r = customer_name data
         \<and> o_customer_phone r = customer_phone data
         \<and> o_status r = status data
         \<and> o_total_pieces r = json_nullable (totalPieces (order_items data))
         \<and> o_total_price r = json_nullable (totalPrice data)
         \<and> o_fabric_price r = json_number (fabric_price data)
         \<and> o_tailoring_price r = json_number (tailoring_price data)
         \<and> o_extra_costs r = json_number (extra_costs data)
         \<and> o_tax_amount r = json_number (tax_amount data)
         \<and> (\<forall>t. notes_text data = Some t \<longrightarrow> o_notes r = Some t)"
      unfolding r by (simp add: apply_update_fields header_payload_fields)
  qed
  from a i m h show ?thesis by (simp only: simp_thms)
qed

theorem C3_delete_failure_frame_witness:
  "\<not> faulty (sample_backend delete_fails) Update_order
   \<and> faulty (sample_backend delete_fails) Delete_items
   \<and> fst (onSubmit ''o1'' example_form (sample_backend delete_fails)) = Update_failed
   \<and> items_table (snd (onSubmit ''o1'' example_form (sample_backend delete_fails)))
       = [sample_item 0 2 Null (Numeric (Fin 10)), sample_item 1 1 (Numeric (Fin 4)) (Numeric (Fin 5))]
   \<and> apply_update (header_payload example_form) sample_order
       \<in> set (orders_table (snd (onSubmit ''o1'' example_form (sample_backend delete_fails))))
   \<and> o_id (apply_update (header_payload example_form) sample_order) = ''o1''
   \<and> o_customer_name (apply_update (header_payload example_form) sample_order) = ''c''
   \<and> o_fabric_price (apply_update (header_payload example_form) sample_order) = Numeric (Fin 3)
   \<and> o_total_price (apply_update (header_payload example_form) sample_order) = Some (Fin 31)"
proof -
  have f: "\<not> faulty (sample_backend delete_fails) Update_order"
    "faulty (sample_backend delete_fails) Delete_items"
    by (simp_all add: sample_backend_def delete_fails_def)
  have o: "orders_table (sample_backend delete_fails) = [sample_order]"
    "o_id sample_order = ''o1''"
    by (simp_all add: sample_backend_def sample_order_def)
  have i: "items_table (sample_backend delete_fails)
      = [sample_item 0 2 Null (Numeric (Fin 10)), sample_item 1 1 (Numeric (Fin 4)) (Numeric (Fin 5))]"
    by (simp add: sample_backend_def)
  have m: "apply_update (header_payload example_form) sample_order
       \<in> set (orders_table (snd (onSubmit ''o1'' example_form (sample_backend delete_fails))))"
    by (simp add: onSubmit_result f o)
  have d: "o_id (apply_update (header_payload example_form) sample_order) = ''o1''"
    by (simp add: apply_update_fields o)
  have v: "customer_name example_form = ''c''"
    "json_number (fabric_price example_form) = Numeric (Fin 3)"
    by (simp_all add: example_form_def)
  have p: "json_nullable (totalPrice example_form) = Some (Fin 31)"
    using example_totals by simp
  note T = C3_delete_failure_frame [OF f, of "''o1''" example_form]
  from T have a: "fst (onSubmit ''o1'' example_form (sample_backend delete_fails)) = Update_failed"
    and b: "items_table (snd (onSubmit ''o1'' example_form (sample_backend delete_fails)))
       = items_table (sample_backend delete_fails)" by blast+
  from T m d have c: "o_customer_name (apply_update (header_payload example_form) sample_order)
        = customer_name example_form
     \<and> o_fabric_price (apply_update (header_payload example_form) sample_order)
        = json_number (fabric_price example_form)
     \<and> o_total_price (apply_update (header_payload example_form) sample_order)
        = json_nullable (totalPrice example_form)" by blast
  from f a b m d c show ?thesis by (simp add: i v p)
qed




section \<open>Loading an order and submitting it with the same items\<close>



lemma filter_complement: "filter P (filter (\<lambda>r. \<not> P r) xs) = []"
  by (induction xs) simp_all

lemma store_items_ids: "map i_id (store_items k ps) = [k ..< k + length ps]"
  by (induction ps arbitrary: k) (simp_all add: stored_item_def upt_rec)





text \<open>
  The editor never writes an infinity: a request carries it as null. The counter stays above
  the identifiers in use through every submit.
\<close>

lemma stored_item_finite: "finite_row (stored_item k p)"
proof -
  have a: "\<not> infinite (nullable (json_nullable q))" for q by (cases q) simp_all
  have b: "\<not> infinite (js_Number (json_number n))" for n by (cases n) simp_all
  show ?thesis
    by (cases "n_quantity p") (simp_all add: finite_row_def stored_item_def a b)
qed

lemma store_items_finite: "list_all finite_row (store_items k ps)"
  by (induction ps arbitrary: k) (simp_all add: stored_item_finite)

lemma store_items_ids_bounds:
  "list_all (\<lambda>r. k \<le> i_id r \<and> i_id r < k + length ps) (store_items k ps)"
proof -
  have "\<forall>x \<in> set (map i_id (store_items k ps)). k \<le> x \<and> x < k + length ps"
    unfolding store_items_ids by simp
  then show ?thesis by (simp add: list_all_iff)
qed

lemma onSubmit_ids_below_counter:
  assumes "ids_below_counter b"
  shows "ids_below_counter (snd (onSubmit oid data b))"
proof -
  have old: "\<forall>r \<in> set (items_table b). i_id r < next_item_id b"
    using assms by (simp add: ids_below_counter_def list_all_iff)
  have new: "\<forall>r \<in> set (store_items (next_item_id b) (map (item_payload oid) (order_items data))).
      i_id r < next_item_id b + length (order_items data)"
    using store_items_ids_bounds [of "next_item_id b" "map (item_payload oid) (order_items data)"]
    by (simp add: list_all_iff)
  from old have old': "\<forall>r \<in> set (items_table b). i_id r < next_item_id b + length (order_items data)"
    by auto
  show ?thesis
    using old old' new
    by (cases "faulty b Update_order"; cases "faulty b Delete_items";
        cases "faulty b Insert_items")
      (auto simp: onSubmit_result ids_below_counter_def list_all_iff)
qed


text \<open>
  A submit whose insert fails after the delete went through leaves the order without item
  rows: the writes are not undone.
\<close>

lemma failed_insert_leaves_no_items:
  assumes "orderSchema f = []" and "\<not> faulty b Update_order" and "\<not> faulty b Delete_items"
    and "faulty b Insert_items"
  shows "fst (snd (handleSubmit oid f b)) = Some Update_failed
         \<and> order_item_rows oid (snd (snd (handleSubmit oid f b))) = []"
proof -
  have h: "handleSubmit oid f b = ([], Some (fst (onSubmit oid f b)), snd (onSubmit oid f b))"
    using assms(1) by (simp add: handleSubmit_def split: prod.splits)
  have "items_table (snd (onSubmit oid f b))
      = filter (\<lambda>r. i_order_id r \<noteq> Some oid) (items_table b)"
    using assms by (simp add: onSubmit_result)
  then have "order_item_rows oid (snd (onSubmit oid f b)) = []"
    unfolding order_item_rows_def [of oid "snd (onSubmit oid f b)"]
    by (simp only: filter_complement)
  moreover have "fst (onSubmit oid f b) = Update_failed"
    using assms by (simp add: onSubmit_result)
  ultimately show ?thesis by (simp add: h)
qed




end
